theory Spec2Isabelle
  imports Main
begin

section \<open>JavaScript values\<close>

text \<open>
  The component of \<^verbatim>\<open>VideoUploadForm.jsx\<close> reads decoded JSON bodies and thrown
  error objects with \<^verbatim>\<open>||\<close>, \<^verbatim>\<open>?.\<close> and \<^verbatim>\<open>===\<close>, so the values it handles are
  modelled as JavaScript values. An object is the list of its own properties, the first
  binding of a key being the one that is read.

  Numbers are the safe integers, those of magnitude below \<open>2 ^ 53\<close> (HTTP status codes,
  percentages): JavaScript holds each of them exactly and prints it digit by digit.
  Fractions, NaN, the infinities and larger numbers are outside the model.
\<close>

typedef safe_int = "{n :: int. \<bar>n\<bar> < 2 ^ 53}"
  by (rule exI [of _ 0]) simp

datatype jsval =
    JUndefined
  | JNull
  | JBool bool
  | JNumber safe_int
  | JStr string
  | JArr "jsval list"
  | JObj "(string \<times> jsval) list"

text \<open>The number \<open>n\<close>, for a safe integer \<open>n\<close>.\<close>

definition JNum :: "int \<Rightarrow> jsval" where
  "JNum n = JNumber (Abs_safe_int n)"

text \<open>Truthiness, as \<^verbatim>\<open>if (v)\<close>, \<^verbatim>\<open>!v\<close> and \<^verbatim>\<open>a || b\<close> test it.\<close>

fun truthy :: "jsval \<Rightarrow> bool" where
  "truthy JUndefined = False"
| "truthy JNull = False"
| "truthy (JBool b) = b"
| "truthy (JNumber n) = (Rep_safe_int n \<noteq> 0)"
| "truthy (JStr s) = (s \<noteq> [])"
| "truthy (JArr xs) = True"
| "truthy (JObj kvs) = True"

text \<open>\<^verbatim>\<open>a || b\<close>: the left operand when it is truthy, the right one otherwise.\<close>

definition js_or :: "jsval \<Rightarrow> jsval \<Rightarrow> jsval" where
  "js_or a b = (if truthy a then a else b)"

fun nullish :: "jsval \<Rightarrow> bool" where
  "nullish JUndefined = True"
| "nullish JNull = True"
| "nullish v = False"

text \<open>
  \<^verbatim>\<open>v.p\<close> on a value that is neither null nor undefined, for the property names this
  component reads (\<^verbatim>\<open>task_id\<close>, \<^verbatim>\<open>progress\<close>, \<^verbatim>\<open>current_operation\<close>, \<^verbatim>\<open>status\<close>,
  \<^verbatim>\<open>error\<close>, \<^verbatim>\<open>response\<close>, \<^verbatim>\<open>data\<close>, \<^verbatim>\<open>detail\<close>, \<^verbatim>\<open>message\<close>): none of them is a
  built-in property of a string, number, boolean or array, so there the read gives
  undefined. On null and undefined the read throws; the callers below test
  \<open>nullish\<close> first and take the throwing branch themselves.
\<close>

fun get_prop :: "jsval \<Rightarrow> string \<Rightarrow> jsval" where
  "get_prop (JObj kvs) p = (case map_of kvs p of Some v \<Rightarrow> v | None \<Rightarrow> JUndefined)"
| "get_prop v p = JUndefined"

text \<open>\<^verbatim>\<open>v?.p\<close>: undefined when \<open>v\<close> is null or undefined, \<^verbatim>\<open>v.p\<close> otherwise.\<close>

definition opt_chain :: "jsval \<Rightarrow> string \<Rightarrow> jsval" where
  "opt_chain v p = (if nullish v then JUndefined else get_prop v p)"

text \<open>
  \<^verbatim>\<open>Object.is\<close>, by which React decides whether a state value changed: primitives
  are compared by value, while an array or object decoded from a new response is a new
  reference and never the same as the one held before.
\<close>

fun is_reference :: "jsval \<Rightarrow> bool" where
  "is_reference (JArr xs) = True"
| "is_reference (JObj kvs) = True"
| "is_reference v = False"

definition same_value :: "jsval \<Rightarrow> jsval \<Rightarrow> bool" where
  "same_value old new = (old = new \<and> \<not> is_reference new)"

subsection \<open>String conversion of a template literal\<close>

fun digits :: "nat \<Rightarrow> string" where
  "digits n =
     (if n < 10 then [''0123456789'' ! n]
      else digits (n div 10) @ [''0123456789'' ! (n mod 10)])"

declare digits.simps [simp del]

definition num_to_string :: "int \<Rightarrow> string" where
  "num_to_string n = (if n < 0 then ''-'' @ digits (nat (- n)) else digits (nat n))"

fun join_comma :: "string list \<Rightarrow> string" where
  "join_comma [] = []"
| "join_comma [s] = s"
| "join_comma (s # ss) = s @ '','' @ join_comma ss"

text \<open>
  \<^verbatim>\<open>`${v}`\<close>, the string conversion of a template literal; \<open>None\<close> when it throws a
  TypeError. An array joins its elements with commas, null and undefined elements giving
  the empty string. A plain object prints as \<^verbatim>\<open>[object Object]\<close>, by the \<^verbatim>\<open>toString\<close>
  it inherits; when it has a property \<^verbatim>\<open>toString\<close> of its own, which in a decoded
  body is never a function, the conversion finds nothing to call that gives a primitive
  and throws.
\<close>

fun to_string :: "jsval \<Rightarrow> string option" where
  "to_string JUndefined = Some ''undefined''"
| "to_string JNull = Some ''null''"
| "to_string (JBool b) = Some (if b then ''true'' else ''false'')"
| "to_string (JNumber n) = Some (num_to_string (Rep_safe_int n))"
| "to_string (JStr s) = Some s"
| "to_string (JArr xs) =
     map_option join_comma
       (those (map (\<lambda>x. if nullish x then Some [] else to_string x) xs))"
| "to_string (JObj kvs) =
     (if map_of kvs ''toString'' = None then Some ''[object Object]'' else None)"

text \<open>
  The TypeError of that conversion, and the TypeError of a property read on null or
  undefined, as the catch blocks see them: an error object with a message (here in V8's
  words) and no \<^verbatim>\<open>response\<close>.
\<close>

definition conversion_error :: jsval where
  "conversion_error = JObj [(''message'', JStr ''Cannot convert object to primitive value'')]"

definition type_error :: "jsval \<Rightarrow> string \<Rightarrow> jsval" where
  "type_error v p =
     JObj [(''message'',
            JStr (''Cannot read properties of '' @
                  (if v = JNull then ''null'' else ''undefined'') @ '' (reading '' @
                  [CHR 0x27] @ p @ [CHR 0x27] @ '')''))]"

section \<open>The component\<close>

text \<open>A \<^verbatim>\<open>File\<close>: its name and its size in bytes.\<close>

record js_file =
  file_name :: string
  file_size :: nat

text \<open>
  The two operations of \<^verbatim>\<open>../services/api\<close>, as the calls the component makes. A
  status query carries the id of the timer whose callback issued it.
\<close>

datatype net_call =
    UploadVideo js_file string string
  | GetTaskStatus nat jsval

text \<open>How an awaited promise settles: with a value, or by throwing one.\<close>

datatype settled = Resolved jsval | Rejected jsval

text \<open>
  The \<^verbatim>\<open>useState\<close> cells and the \<^verbatim>\<open>uploadInProgress\<close> ref of the component, followed
  by what the runtime holds for it: whether it is mounted, the \<^verbatim>\<open>interval\<close> variable of
  the effect that ran last, the browser's running timers (id and the \<^verbatim>\<open>taskId\<close> their
  callback closes over), the next timer id, the network calls made so far, and the
  promises still awaited (uploads, and status queries by timer id).
\<close>

record component =
  "file" :: "js_file option"
  dragOver :: bool
  name :: string
  description :: string
  taskId :: jsval
  progress :: jsval
  statusText :: jsval
  error :: jsval
  uploadWarning :: string
  uploadProgress :: jsval
  uploadInProgress :: bool
  mounted :: bool
  interval :: "nat option"
  timers :: "(nat \<times> jsval) list"
  next_timer :: nat
  calls :: "net_call list"
  pending_uploads :: nat
  pending_polls :: "nat list"

text \<open>
  The translation function \<^verbatim>\<open>t(key, fallback)\<close> of \<^verbatim>\<open>useTranslation\<close> is not among
  the sources: it is a parameter of every handler. It is one fixed function, so the
  dependency list \<^verbatim>\<open>[taskId, t]\<close> of the effect changes only with \<^verbatim>\<open>taskId\<close>.
\<close>

type_synonym translator = "string \<Rightarrow> string \<Rightarrow> string"

text \<open>The translator with no translation loaded: every key gives its fallback.\<close>

definition fallback_t :: translator where
  "fallback_t key dflt = dflt"

text \<open>
  The first render: the initial values of the \<^verbatim>\<open>useState\<close> cells; the effect has run
  with the empty \<^verbatim>\<open>taskId\<close> and started no timer. Browsers number timers from 1.
\<close>

definition init :: component where
  "init = \<lparr> file = None, dragOver = False, name = [], description = [],
            taskId = JStr [], progress = JNum 0, statusText = JStr [], error = JStr [],
            uploadWarning = [], uploadProgress = JNum 0, uploadInProgress = False,
            mounted = True, interval = None, timers = [], next_timer = 1, calls = [],
            pending_uploads = 0, pending_polls = [] \<rparr>"

subsection \<open>State setters and timers\<close>

text \<open>A state setter of an unmounted component changes nothing.\<close>

definition set_state :: "(component \<Rightarrow> component) \<Rightarrow> component \<Rightarrow> component" where
  "set_state upd s = (if mounted s then upd s else s)"

definition setFile :: "js_file \<Rightarrow> component \<Rightarrow> component" where
  "setFile f = set_state (\<lambda>s. s\<lparr>file := Some f\<rparr>)"

definition setDragOver :: "bool \<Rightarrow> component \<Rightarrow> component" where
  "setDragOver b = set_state (\<lambda>s. s\<lparr>dragOver := b\<rparr>)"

definition setName :: "string \<Rightarrow> component \<Rightarrow> component" where
  "setName v = set_state (\<lambda>s. s\<lparr>name := v\<rparr>)"

definition setDescription :: "string \<Rightarrow> component \<Rightarrow> component" where
  "setDescription v = set_state (\<lambda>s. s\<lparr>description := v\<rparr>)"

definition setProgress :: "jsval \<Rightarrow> component \<Rightarrow> component" where
  "setProgress v = set_state (\<lambda>s. s\<lparr>progress := v\<rparr>)"

definition setStatusText :: "jsval \<Rightarrow> component \<Rightarrow> component" where
  "setStatusText v = set_state (\<lambda>s. s\<lparr>statusText := v\<rparr>)"

definition setError :: "jsval \<Rightarrow> component \<Rightarrow> component" where
  "setError v = set_state (\<lambda>s. s\<lparr>error := v\<rparr>)"

definition setUploadWarning :: "string \<Rightarrow> component \<Rightarrow> component" where
  "setUploadWarning v = set_state (\<lambda>s. s\<lparr>uploadWarning := v\<rparr>)"

definition setUploadProgress :: "jsval \<Rightarrow> component \<Rightarrow> component" where
  "setUploadProgress v = set_state (\<lambda>s. s\<lparr>uploadProgress := v\<rparr>)"

text \<open>\<^verbatim>\<open>clearInterval(i)\<close>: timer \<open>i\<close> stops; nothing happens when it is not running.\<close>

definition clearInterval :: "nat \<Rightarrow> component \<Rightarrow> component" where
  "clearInterval i s = s\<lparr>timers := filter (\<lambda>(j, T). j \<noteq> i) (timers s)\<rparr>"

text \<open>Timer \<open>i\<close> is running.\<close>

definition running :: "nat \<Rightarrow> component \<Rightarrow> bool" where
  "running i s = (i \<in> fst ` set (timers s))"

text \<open>
  The clean-up the effect returns: \<^verbatim>\<open>if (interval) clearInterval(interval)\<close>. The test
  is truthiness, so a timer id of 0 would not be cleared.
\<close>

definition effect_cleanup :: "component \<Rightarrow> component" where
  "effect_cleanup s =
     (case interval s of
        None \<Rightarrow> s
      | Some i \<Rightarrow> if i \<noteq> 0 then clearInterval i s else s)"

text \<open>
  The body of the effect: \<^verbatim>\<open>let interval; if (taskId) interval = setInterval(..., 2000)\<close>.
  The new timer takes the next id and closes over the current \<^verbatim>\<open>taskId\<close>.
\<close>

definition effect_body :: "component \<Rightarrow> component" where
  "effect_body s =
     (if truthy (taskId s)
      then s\<lparr>interval := Some (next_timer s),
             timers := timers s @ [(next_timer s, taskId s)],
             next_timer := Suc (next_timer s)\<rparr>
      else s\<lparr>interval := None\<rparr>)"

text \<open>
  \<^verbatim>\<open>setTaskId(v)\<close>. When the value is the same as the one held, nothing changes.
  Otherwise the component renders again with the new \<^verbatim>\<open>taskId\<close>, and since it is a
  dependency of the effect, React runs the clean-up of the previous effect and then the
  effect. Both touch the timers only, so they are run here, with the setter.
\<close>

definition setTaskId :: "jsval \<Rightarrow> component \<Rightarrow> component" where
  "setTaskId v s =
     (if mounted s \<and> \<not> same_value (taskId s) v
      then effect_body (effect_cleanup (s\<lparr>taskId := v\<rparr>))
      else s)"

text \<open>Unmounting runs the clean-up of the effect.\<close>

definition unmount :: "component \<Rightarrow> component" where
  "unmount s = (effect_cleanup s)\<lparr>mounted := False\<rparr>"

subsection \<open>handleUpload\<close>

text \<open>\<^verbatim>\<open>15 * 1024 * 1024 * 1024\<close> bytes.\<close>

definition max_upload_size :: nat where
  "max_upload_size = 15 * 1024 * 1024 * 1024"

text \<open>
  \<^verbatim>\<open>handleUpload\<close> up to its \<^verbatim>\<open>await\<close>: the file check, the size check, the
  \<^verbatim>\<open>uploadInProgress\<close> check, in this order, and then the call of \<^verbatim>\<open>uploadVideo\<close>
  with the file, the name and the description.
\<close>

definition handleUpload :: "translator \<Rightarrow> component \<Rightarrow> component" where
  "handleUpload t s =
     (case file s of
        None \<Rightarrow> setError (JStr (t ''pleaseSelectFile'' ''Please select a video file.'')) s
      | Some f \<Rightarrow>
          if file_size f > max_upload_size
          then setError (JStr (t ''fileTooLarge''
                 ''File size exceeds the maximum allowed (15 GB).'')) s
          else if uploadInProgress s
          then setUploadWarning (t ''uploadInProgress''
                 ''Upload already in progress, please wait.'') s
          else
            (let s1 = s\<lparr>uploadInProgress := True\<rparr>;
                 s2 = setStatusText (JStr (t ''startingUpload'' ''Starting upload...'')) s1;
                 s3 = setProgress (JNum 0) s2;
                 s4 = setUploadProgress (JNum 0) s3
             in s4\<lparr>calls := calls s4 @ [UploadVideo f (name s) (description s)],
                    pending_uploads := Suc (pending_uploads s4)\<rparr>))"

text \<open>
  The progress callback handed to \<^verbatim>\<open>uploadVideo\<close>, given the rounded percentage it
  computed: it stores the percentage and then builds the status text from it.
\<close>

definition onUploadProgress :: "translator \<Rightarrow> jsval \<Rightarrow> component \<Rightarrow> component" where
  "onUploadProgress t percentCompleted s =
     (let s1 = setUploadProgress percentCompleted s in
      case to_string percentCompleted of
        None \<Rightarrow> s1
      | Some percent \<Rightarrow>
          setStatusText (JStr (t ''uploadingProgress'' (''Uploading: '' @ percent @ ''%''))) s1)"

text \<open>
  The value of \<^verbatim>\<open>err.response?.data?.detail || err.message || fallback\<close>, for an
  \<open>err\<close> that is neither null nor undefined.
\<close>

definition error_text :: "jsval \<Rightarrow> string \<Rightarrow> jsval" where
  "error_text err fallback =
     js_or (js_or (opt_chain (opt_chain (get_prop err ''response'') ''data'') ''detail'')
                  (get_prop err ''message''))
           (JStr fallback)"

text \<open>
  The catch block of \<^verbatim>\<open>handleUpload\<close>. The ref is cleared first. Reading
  \<^verbatim>\<open>err.response\<close> of a null or undefined \<open>err\<close> throws out of the handler, leaving
  the state as it is then.
\<close>

definition handleUpload_catch :: "translator \<Rightarrow> jsval \<Rightarrow> component \<Rightarrow> component" where
  "handleUpload_catch t err s =
     (let s1 = s\<lparr>uploadInProgress := False\<rparr> in
      if nullish err then s1
      else if opt_chain (get_prop err ''response'') ''status'' = JNum 507
      then setError (JStr (t ''noSpaceLeft''
             ''Server disk space is full. Please try again later or contact administrator.'')) s1
      else if opt_chain (get_prop err ''response'') ''status'' = JNum 413
      then setError (JStr (t ''fileTooLarge''
             ''File size is too large for server to process.'')) s1
      else setError (error_text err (t ''uploadFailed'' ''Upload failed.'')) s1)"

text \<open>
  \<^verbatim>\<open>handleUpload\<close> after its \<^verbatim>\<open>await\<close>. A resolved value that is null or undefined
  makes \<^verbatim>\<open>res.task_id\<close> throw inside the try block.
\<close>

definition handleUpload_resume :: "translator \<Rightarrow> settled \<Rightarrow> component \<Rightarrow> component" where
  "handleUpload_resume t r s =
     (case r of
        Resolved res \<Rightarrow>
          if nullish res then handleUpload_catch t (type_error res ''task_id'') s
          else setStatusText (JStr (t ''processingVideo'' ''Processing video...''))
                 (setTaskId (get_prop res ''task_id'') s)
      | Rejected err \<Rightarrow> handleUpload_catch t err s)"

text \<open>
  The \<^verbatim>\<open>disabled\<close> attribute of the submit button,
  \<^verbatim>\<open>uploadInProgress.current || !file || !name\<close>, as the last render computed it.
  \<^verbatim>\<open>file\<close> and \<^verbatim>\<open>name\<close> are state cells: setting them renders again, so the render
  saw the values they have now. The ref is read at the render only, and setting it renders
  nothing: what the render read in it is a parameter here, and need not be what the ref
  holds now.
\<close>

definition submit_disabled :: "bool \<Rightarrow> component \<Rightarrow> bool" where
  "submit_disabled busy_at_render s = (busy_at_render \<or> file s = None \<or> name s = [])"

subsection \<open>The status poll\<close>

text \<open>
  The interval callback of timer \<open>i\<close> up to its \<^verbatim>\<open>await\<close>: it calls
  \<^verbatim>\<open>getTaskStatus\<close> with the \<^verbatim>\<open>taskId\<close> it closes over. A timer that is not running
  does not fire.
\<close>

definition poll_callback :: "nat \<Rightarrow> component \<Rightarrow> component" where
  "poll_callback i s =
     (case map_of (timers s) i of
        None \<Rightarrow> s
      | Some T \<Rightarrow> s\<lparr>calls := calls s @ [GetTaskStatus i T],
                     pending_polls := pending_polls s @ [i]\<rparr>)"

text \<open>The catch block of the callback; \<open>i\<close> is the \<^verbatim>\<open>interval\<close> of its closure.\<close>

definition poll_catch :: "translator \<Rightarrow> nat \<Rightarrow> jsval \<Rightarrow> component \<Rightarrow> component" where
  "poll_catch t i err s =
     (let s1 = (clearInterval i s)\<lparr>uploadInProgress := False\<rparr> in
      if nullish err then s1
      else setError (error_text err
             (t ''statusCheckFailed'' ''Failed to check upload status.'')) s1)"

text \<open>
  The callback after its \<^verbatim>\<open>await\<close>. In the \<^verbatim>\<open>failed\<close> branch the message is built
  after the timer is cancelled and the flag cleared; when the conversion of the error
  value throws, control passes to the catch block from there.
\<close>

definition poll_resume :: "translator \<Rightarrow> nat \<Rightarrow> settled \<Rightarrow> component \<Rightarrow> component" where
  "poll_resume t i r s =
     (case r of
        Resolved statusRes \<Rightarrow>
          if nullish statusRes then poll_catch t i (type_error statusRes ''progress'') s
          else
            (let s1 = setProgress (js_or (get_prop statusRes ''progress'') (JNum 0)) s;
                 s2 = setStatusText
                        (js_or (get_prop statusRes ''current_operation'') (JStr [])) s1
             in if get_prop statusRes ''status'' = JStr ''completed''
                then (clearInterval i s2)\<lparr>uploadInProgress := False\<rparr>
                else if get_prop statusRes ''status'' = JStr ''failed''
                then
                  (let s3 = (clearInterval i s2)\<lparr>uploadInProgress := False\<rparr> in
                   case to_string (js_or (get_prop statusRes ''error'') (JStr [])) of
                     None \<Rightarrow> poll_catch t i conversion_error s3
                   | Some reason \<Rightarrow>
                       setError
                         (JStr (t ''processingFailed'' ''Processing failed'' @ '': '' @
                                reason)) s3)
                else s2)
      | Rejected err \<Rightarrow> poll_catch t i err s)"

subsection \<open>File selection\<close>

text \<open>
  What \<^verbatim>\<open>handleFileChange\<close> and \<^verbatim>\<open>handleDrop\<close> do with a non-empty file list: keep
  its first file and warn when it is larger than 1 GiB.
\<close>

definition select_file :: "translator \<Rightarrow> js_file list \<Rightarrow> component \<Rightarrow> component" where
  "select_file t files s =
     (case files of
        [] \<Rightarrow> s
      | f # rest \<Rightarrow>
          setUploadWarning
            (if file_size f > 1024 * 1024 * 1024
             then t ''largeFileWarning''
                    (''You'' @ [CHR 0x27] @ ''re uploading a large file. It might take a while to process.'')
             else [])
            (setFile f s))"

definition handleFileChange :: "translator \<Rightarrow> js_file list \<Rightarrow> component \<Rightarrow> component" where
  "handleFileChange t files s = select_file t files s"

definition handleDrop :: "translator \<Rightarrow> js_file list \<Rightarrow> component \<Rightarrow> component" where
  "handleDrop t files s = select_file t files (setDragOver False s)"

subsection \<open>Runs of the component\<close>

text \<open>
  What can happen to the component: the user's actions, a progress report or the
  settling of an upload that is awaited, the firing of a timer, the settling of a status
  query that is awaited, and unmounting. The user reaches a mounted component only; an
  event that cannot happen in a state leaves it as it is. \<open>Submit\<close> is the submit
  event of the form, that is, a call of \<^verbatim>\<open>handleUpload\<close>; what the button's
  \<^verbatim>\<open>disabled\<close> attribute is at that moment is \<open>submit_disabled\<close>, kept apart. A timer fires whenever it is
  running, also while an earlier status query of its callback is still awaited.
\<close>

datatype event =
    ChangeFile "js_file list"
  | DragOver
  | DragLeave
  | DropFiles "js_file list"
  | ChangeName string
  | ChangeDescription string
  | Submit
  | CloseAlert
  | UploadProgress jsval
  | UploadSettled settled
  | TimerFires nat
  | StatusSettled nat settled
  | Unmount

fun step :: "translator \<Rightarrow> event \<Rightarrow> component \<Rightarrow> component" where
  "step t (ChangeFile files) s = (if mounted s then handleFileChange t files s else s)"
| "step t DragOver s = (if mounted s then setDragOver True s else s)"
| "step t DragLeave s = (if mounted s then setDragOver False s else s)"
| "step t (DropFiles files) s = (if mounted s then handleDrop t files s else s)"
| "step t (ChangeName v) s = (if mounted s then setName v s else s)"
| "step t (ChangeDescription v) s = (if mounted s then setDescription v s else s)"
| "step t Submit s = (if mounted s then handleUpload t s else s)"
| "step t CloseAlert s = (if mounted s then setError (JStr []) s else s)"
| "step t (UploadProgress p) s =
     (if 0 < pending_uploads s then onUploadProgress t p s else s)"
| "step t (UploadSettled r) s =
     (if 0 < pending_uploads s
      then handleUpload_resume t r (s\<lparr>pending_uploads := pending_uploads s - 1\<rparr>)
      else s)"
| "step t (TimerFires i) s = poll_callback i s"
| "step t (StatusSettled i r) s =
     (if i \<in> set (pending_polls s)
      then poll_resume t i r (s\<lparr>pending_polls := remove1 i (pending_polls s)\<rparr>)
      else s)"
| "step t Unmount s = (if mounted s then unmount s else s)"

fun run :: "translator \<Rightarrow> event list \<Rightarrow> component \<Rightarrow> component" where
  "run t [] s = s"
| "run t (e # es) s = run t es (step t e s)"

definition reachable :: "translator \<Rightarrow> component \<Rightarrow> bool" where
  "reachable t s = (\<exists>es. s = run t es init)"

text \<open>The status queries among the calls, and those a given timer issued.\<close>

fun is_status_query :: "net_call \<Rightarrow> bool" where
  "is_status_query (GetTaskStatus i T) = True"
| "is_status_query c = False"

fun issued_by :: "nat \<Rightarrow> net_call \<Rightarrow> bool" where
  "issued_by i (GetTaskStatus j T) = (i = j)"
| "issued_by i c = False"

subsection \<open>Timer bookkeeping\<close>

text \<open>
  What holds of the timers in every run: a running timer is the one the last effect
  stored in \<^verbatim>\<open>interval\<close>, its id is not 0, and the component is mounted; ids already
  handed out lie below the next one.
\<close>

definition timers_wf :: "component \<Rightarrow> bool" where
  "timers_wf s =
     ((\<forall>(i, T) \<in> set (timers s). interval s = Some i \<and> i \<noteq> 0 \<and> mounted s) \<and>
      (\<forall>i. interval s = Some i \<longrightarrow> i < next_timer s) \<and> 0 < next_timer s)"

text \<open>Timer \<open>i\<close> was handed out before and is not running.\<close>

definition stale :: "nat \<Rightarrow> component \<Rightarrow> bool" where
  "stale i s = (\<not> running i s \<and> i < next_timer s)"

text \<open>The component is unmounted and no timer runs.\<close>

definition dead :: "component \<Rightarrow> bool" where
  "dead s = (\<not> mounted s \<and> timers s = [])"

text \<open>
  What a step can do to the timers: it never mounts the component, never takes an id
  back, and a timer running after it either ran before or is a new one of a mounted
  component.
\<close>

definition frames :: "component \<Rightarrow> component \<Rightarrow> bool" where
  "frames s s' =
     ((mounted s' \<longrightarrow> mounted s) \<and> next_timer s \<le> next_timer s' \<and>
      (\<forall>(j, T) \<in> set (timers s').
          (j, T) \<in> set (timers s) \<or> (mounted s \<and> next_timer s \<le> j)))"

subsection \<open>Sample inputs\<close>

definition sample_file :: js_file where
  "sample_file = \<lparr>file_name = ''lecture.mp4'', file_size = 1048576\<rparr>"

text \<open>One byte more than \<^verbatim>\<open>15 * 1024 * 1024 * 1024\<close>.\<close>

definition oversized_file :: js_file where
  "oversized_file = \<lparr>file_name = ''archive.mkv'', file_size = 16106127361\<rparr>"

text \<open>A file is selected and the name is still empty.\<close>

definition unnamed_state :: component where
  "unnamed_state = run fallback_t [ChangeFile [sample_file]] init"

text \<open>A named file has been submitted and its upload is awaited.\<close>

definition uploading_state :: component where
  "uploading_state =
     run fallback_t [ChangeFile [sample_file], ChangeName ''Lecture 1'', Submit] init"

text \<open>The upload resolved with a task id: timer 1 polls it.\<close>

definition polling_state :: component where
  "polling_state =
     run fallback_t
       [ChangeFile [sample_file], ChangeName ''Lecture 1'', Submit,
        UploadSettled (Resolved (JObj [(''task_id'', JStr ''abc123'')]))] init"

text \<open>Timer 1 has fired and its status query is awaited.\<close>

definition querying_state :: component where
  "querying_state = step fallback_t (TimerFires 1) polling_state"

section \<open>Properties\<close>

lemmas setters = set_state_def setFile_def setDragOver_def setName_def setDescription_def
  setProgress_def setStatusText_def setError_def setUploadWarning_def setUploadProgress_def

text \<open>The equations that evaluate a run on concrete inputs.\<close>

lemmas eval_defs = init_def setters handleUpload_def handleFileChange_def handleDrop_def
  select_file_def onUploadProgress_def handleUpload_catch_def handleUpload_resume_def
  poll_callback_def poll_catch_def poll_resume_def setTaskId_def effect_body_def
  effect_cleanup_def clearInterval_def unmount_def error_text_def js_or_def opt_chain_def
  same_value_def max_upload_size_def fallback_t_def type_error_def running_def
  sample_file_def oversized_file_def unnamed_state_def uploading_state_def
  polling_state_def querying_state_def submit_disabled_def conversion_error_def

text \<open>Numbers: what the operations give on the number of a safe integer.\<close>

lemma Rep_JNum: "\<bar>n\<bar> < 2 ^ 53 \<Longrightarrow> Rep_safe_int (Abs_safe_int n) = n"
  by (simp add: Abs_safe_int_inverse)

lemma truthy_JNum [simp]: "\<bar>n\<bar> < 2 ^ 53 \<Longrightarrow> truthy (JNum n) = (n \<noteq> 0)"
  by (simp add: JNum_def Rep_JNum)

lemma to_string_JNum [simp]:
  "\<bar>n\<bar> < 2 ^ 53 \<Longrightarrow> to_string (JNum n) = Some (num_to_string n)"
  by (simp add: JNum_def Rep_JNum)

lemma JNum_eq_iff [simp]:
  "\<bar>m\<bar> < 2 ^ 53 \<Longrightarrow> \<bar>n\<bar> < 2 ^ 53 \<Longrightarrow> (JNum m = JNum n) = (m = n)"
  by (simp add: JNum_def Abs_safe_int_inject)

lemma JNum_distinct [simp]:
  "JNum n \<noteq> JUndefined" "JUndefined \<noteq> JNum n"
  "JNum n \<noteq> JNull" "JNull \<noteq> JNum n"
  "JNum n \<noteq> JBool b" "JBool b \<noteq> JNum n"
  "JNum n \<noteq> JStr str" "JStr str \<noteq> JNum n"
  "JNum n \<noteq> JArr xs" "JArr xs \<noteq> JNum n"
  "JNum n \<noteq> JObj kvs" "JObj kvs \<noteq> JNum n"
  by (simp_all add: JNum_def)

lemma JNum_simps [simp]:
  "nullish (JNum n) = False"
  "is_reference (JNum n) = False"
  "get_prop (JNum n) p = JUndefined"
  by (simp_all add: JNum_def)

lemma get_prop_defined_not_nullish: "get_prop v p \<noteq> JUndefined \<Longrightarrow> \<not> nullish v"
  by (cases v) simp_all

lemma map_of_cleared: "map_of (filter (\<lambda>(j, T). j \<noteq> i) xs) i = None"
  by (induction xs) auto

lemma cleared_not_running [simp]:
  "i \<notin> fst ` {x \<in> set xs. case x of (j, T) \<Rightarrow> j \<noteq> i}"
  by auto

subsection \<open>The timers in every run\<close>

lemma wf_frame:
  assumes "timers s' = timers s" and "interval s' = interval s"
    and "next_timer s' = next_timer s" and "mounted s' = mounted s"
  shows "timers_wf s' = timers_wf s"
  using assms by (simp add: timers_wf_def)

lemma wf_setters [simp]:
  "timers_wf (setFile f s) = timers_wf s"
  "timers_wf (setDragOver b s) = timers_wf s"
  "timers_wf (setName n s) = timers_wf s"
  "timers_wf (setDescription n s) = timers_wf s"
  "timers_wf (setProgress v s) = timers_wf s"
  "timers_wf (setStatusText v s) = timers_wf s"
  "timers_wf (setError v s) = timers_wf s"
  "timers_wf (setUploadWarning w s) = timers_wf s"
  "timers_wf (setUploadProgress v s) = timers_wf s"
  by (rule wf_frame; simp add: setters)+

lemma wf_updates [simp]:
  "timers_wf (s\<lparr>uploadInProgress := b\<rparr>) = timers_wf s"
  "timers_wf (s\<lparr>calls := c\<rparr>) = timers_wf s"
  "timers_wf (s\<lparr>pending_uploads := n\<rparr>) = timers_wf s"
  "timers_wf (s\<lparr>pending_polls := ps\<rparr>) = timers_wf s"
  "timers_wf (s\<lparr>taskId := v\<rparr>) = timers_wf s"
  by (simp_all add: timers_wf_def)

lemma wf_handleUpload: "timers_wf (handleUpload t s) = timers_wf s"
  by (rule wf_frame) (simp_all add: handleUpload_def setters Let_def split: option.split)

lemma wf_select_file: "timers_wf (select_file t fs s) = timers_wf s"
  by (rule wf_frame) (simp_all add: select_file_def setters split: list.split)

lemma wf_clearInterval: "timers_wf s \<Longrightarrow> timers_wf (clearInterval i s)"
  by (auto simp: timers_wf_def clearInterval_def)

text \<open>In a run the clean-up leaves no timer running.\<close>

lemma timers_cleanup:
  assumes wf: "timers_wf s"
  shows "timers (effect_cleanup s) = []"
proof (cases "timers s")
  case Nil
  then show ?thesis
    by (simp add: effect_cleanup_def clearInterval_def split: option.split)
next
  case (Cons p ps)
  obtain i T where p: "p = (i, T)" by (cases p)
  from wf Cons p have i: "interval s = Some i" "i \<noteq> 0"
    by (auto simp: timers_wf_def)
  from wf i have "\<forall>(j, U) \<in> set (timers s). j = i"
    by (auto simp: timers_wf_def)
  then have "filter (\<lambda>(j, U). j \<noteq> i) (timers s) = []"
    by (auto simp: filter_empty_conv)
  with i show ?thesis
    by (simp add: effect_cleanup_def clearInterval_def)
qed

lemma cleanup_keeps:
  "mounted (effect_cleanup s) = mounted s"
  "next_timer (effect_cleanup s) = next_timer s"
  "calls (effect_cleanup s) = calls s"
  by (simp_all add: effect_cleanup_def clearInterval_def split: option.split)

lemma wf_setTaskId:
  assumes wf: "timers_wf s"
  shows "timers_wf (setTaskId v s)"
proof -
  have "timers_wf (s\<lparr>taskId := v\<rparr>)" using wf by simp
  then have "timers (effect_cleanup (s\<lparr>taskId := v\<rparr>)) = []" by (rule timers_cleanup)
  moreover have "mounted (effect_cleanup (s\<lparr>taskId := v\<rparr>)) = mounted s"
    "next_timer (effect_cleanup (s\<lparr>taskId := v\<rparr>)) = next_timer s"
    by (simp_all add: cleanup_keeps)
  ultimately show ?thesis using wf
    by (simp add: setTaskId_def effect_body_def timers_wf_def)
qed

lemma wf_unmount: "timers_wf s \<Longrightarrow> timers_wf (unmount s)"
  using timers_cleanup [of s]
  by (auto simp: unmount_def timers_wf_def effect_cleanup_def clearInterval_def
      split: option.split)

lemma wf_handleUpload_catch: "timers_wf (handleUpload_catch t err s) = timers_wf s"
  by (rule wf_frame) (simp_all add: handleUpload_catch_def setters Let_def)

lemma wf_handleUpload_resume:
  assumes "timers_wf s"
  shows "timers_wf (handleUpload_resume t r s)"
  using assms
  by (cases r) (simp_all add: handleUpload_resume_def wf_handleUpload_catch wf_setTaskId)

lemma wf_poll_catch: "timers_wf s \<Longrightarrow> timers_wf (poll_catch t i err s)"
  by (simp add: poll_catch_def wf_clearInterval Let_def)

lemma wf_poll_resume: "timers_wf s \<Longrightarrow> timers_wf (poll_resume t i r s)"
  by (cases r)
     (simp_all add: poll_resume_def wf_poll_catch wf_clearInterval Let_def
        split: option.split)

lemma wf_poll_callback: "timers_wf (poll_callback i s) = timers_wf s"
  by (rule wf_frame) (simp_all add: poll_callback_def split: option.split)

lemma wf_onUploadProgress: "timers_wf (onUploadProgress t p s) = timers_wf s"
  by (simp add: onUploadProgress_def Let_def split: option.split)

lemma wf_step: "timers_wf s \<Longrightarrow> timers_wf (step t e s)"
  by (cases e)
     (simp_all add: wf_handleUpload wf_select_file handleFileChange_def handleDrop_def
        wf_unmount wf_poll_callback wf_onUploadProgress wf_handleUpload_resume
        wf_poll_resume)

lemma wf_run: "timers_wf s \<Longrightarrow> timers_wf (run t es s)"
  by (induction es arbitrary: s) (simp_all add: wf_step)

lemma wf_init: "timers_wf init"
  by (simp add: timers_wf_def init_def)

lemma reachable_wf: "reachable t s \<Longrightarrow> timers_wf s"
  by (auto simp: reachable_def wf_run wf_init)

lemma reachable_run: "reachable t (run t es init)"
  by (auto simp: reachable_def)

text \<open>What each handler does to the timers.\<close>

lemma frames_handleUpload: "frames s (handleUpload t s)"
  by (auto simp: frames_def handleUpload_def setters Let_def split: option.split)

lemma frames_select_file: "frames s (select_file t fs s)"
  by (auto simp: frames_def select_file_def setters split: list.split)

lemma frames_handleDrop: "frames s (handleDrop t fs s)"
  by (auto simp: frames_def handleDrop_def select_file_def setters split: list.split)

lemma frames_onUploadProgress: "frames s (onUploadProgress t p s)"
  by (auto simp: frames_def onUploadProgress_def setters Let_def split: option.split)

lemma frames_setTaskId: "frames s (setTaskId v s)"
  by (auto simp: frames_def setTaskId_def effect_body_def effect_cleanup_def clearInterval_def
      split: option.split)

lemma frames_handleUpload_catch: "frames s (handleUpload_catch t err s)"
  by (auto simp: frames_def handleUpload_catch_def setters Let_def)

lemma frames_pending [simp]:
  "frames (s\<lparr>pending_uploads := n\<rparr>) s' = frames s s'"
  "frames (s\<lparr>pending_polls := ps\<rparr>) s' = frames s s'"
  by (simp_all add: frames_def)

lemma frames_setStatusText [simp]: "frames s (setStatusText x s') = frames s s'"
  by (simp add: frames_def setters)

lemma frames_handleUpload_resume: "frames s (handleUpload_resume t r s)"
  by (cases r) (simp_all add: handleUpload_resume_def frames_handleUpload_catch frames_setTaskId)

lemma frames_poll_catch: "frames s (poll_catch t i err s)"
  by (auto simp: frames_def poll_catch_def clearInterval_def setters Let_def)

lemma frames_poll_resume: "frames s (poll_resume t i r s)"
  by (cases r)
     (auto simp: frames_def poll_resume_def poll_catch_def clearInterval_def setters Let_def
        split: option.split)

lemma frames_poll_callback: "frames s (poll_callback i s)"
  by (auto simp: frames_def poll_callback_def split: option.split)

lemma frames_unmount: "frames s (unmount s)"
  by (auto simp: frames_def unmount_def effect_cleanup_def clearInterval_def split: option.split)

lemma frames_refl: "frames s s"
  by (auto simp: frames_def)

lemma frames_step: "frames s (step t e s)"
proof (cases e)
  case (UploadSettled r)
  then show ?thesis
    using frames_handleUpload_resume [of "s\<lparr>pending_uploads := pending_uploads s - 1\<rparr>" t r]
    by (simp add: frames_refl)
next
  case (StatusSettled i r)
  then show ?thesis
    using frames_poll_resume [of "s\<lparr>pending_polls := remove1 i (pending_polls s)\<rparr>" t i r]
    by (simp add: frames_refl)
next
  case (ChangeName v)
  then show ?thesis by (auto simp: frames_def setters)
next
  case (ChangeDescription v)
  then show ?thesis by (auto simp: frames_def setters)
next
  case DragOver
  then show ?thesis by (auto simp: frames_def setters)
next
  case DragLeave
  then show ?thesis by (auto simp: frames_def setters)
next
  case CloseAlert
  then show ?thesis by (auto simp: frames_def setters)
qed (simp_all add: frames_refl frames_handleUpload handleFileChange_def frames_select_file
      frames_handleDrop frames_onUploadProgress frames_poll_callback frames_unmount)

lemma stale_step: "stale i s \<Longrightarrow> stale i (step t e s)"
  using frames_step [of s t e]
  by (force simp: stale_def frames_def running_def)

lemma dead_step: "dead s \<Longrightarrow> dead (step t e s)"
  using frames_step [of s t e]
  by (cases "timers (step t e s)") (auto simp: dead_def frames_def)


text \<open>A step adds at most one call, and a status query only from a running timer.\<close>

lemma calls_setTaskId: "calls (setTaskId v s) = calls s"
  by (simp add: setTaskId_def effect_body_def effect_cleanup_def clearInterval_def
      split: option.split)

lemma calls_handleUpload_resume: "calls (handleUpload_resume t r s) = calls s"
  by (cases r)
     (simp_all add: handleUpload_resume_def handleUpload_catch_def calls_setTaskId setters Let_def)

lemma calls_poll_resume: "calls (poll_resume t i r s) = calls s"
  by (cases r)
     (simp_all add: poll_resume_def poll_catch_def clearInterval_def setters Let_def
        split: option.split)

lemma calls_step:
  "calls (step t e s) = calls s
   \<or> (\<exists>f n d. calls (step t e s) = calls s @ [UploadVideo f n d])
   \<or> (\<exists>j T. running j s \<and> calls (step t e s) = calls s @ [GetTaskStatus j T])"
proof (cases e)
  case Submit
  then show ?thesis
    by (simp add: handleUpload_def setters Let_def split: option.split)
next
  case (TimerFires j)
  show ?thesis
  proof (cases "map_of (timers s) j")
    case None
    with TimerFires show ?thesis by (simp add: poll_callback_def)
  next
    case (Some T)
    then have "running j s"
      by (auto simp: running_def dest: map_of_SomeD intro: rev_image_eqI)
    with TimerFires Some show ?thesis by (simp add: poll_callback_def)
  qed
qed (simp_all add: calls_handleUpload_resume calls_poll_resume handleFileChange_def
      handleDrop_def select_file_def onUploadProgress_def unmount_def effect_cleanup_def
      clearInterval_def setters Let_def split: list.split option.split)

lemma queries_stale_step:
  "stale i s \<Longrightarrow> filter (issued_by i) (calls (step t e s)) = filter (issued_by i) (calls s)"
  using calls_step [of t e s] by (auto simp: stale_def)

lemma queries_dead_step:
  "dead s \<Longrightarrow>
   filter is_status_query (calls (step t e s)) = filter is_status_query (calls s)"
  using calls_step [of t e s] by (auto simp: dead_def running_def)

lemma queries_stale_run:
  "stale i s \<Longrightarrow> filter (issued_by i) (calls (run t es s)) = filter (issued_by i) (calls s)"
  by (induction es arbitrary: s) (simp_all add: queries_stale_step stale_step)

lemma queries_dead_run:
  "dead s \<Longrightarrow>
   filter is_status_query (calls (run t es s)) = filter is_status_query (calls s)"
  by (induction es arbitrary: s) (simp_all add: queries_dead_step dead_step)

lemma next_timer_poll_resume: "next_timer (poll_resume t i r s) = next_timer s"
  by (cases r)
     (simp_all add: poll_resume_def poll_catch_def clearInterval_def setters Let_def
        split: option.split)

text \<open>A timer that was cancelled issues no status query in the rest of the run.\<close>

lemma cancelled_timer_issues_nothing:
  assumes "\<not> running i s" and "i < next_timer s"
  shows "filter (issued_by i) (calls (run t es s)) = filter (issued_by i) (calls s)"
  using assms by (intro queries_stale_run) (simp add: stale_def)

subsection \<open>Local validation in handleUpload\<close>




text \<open>
  Claim C3. A selected file of more than \<open>15 * 1024 ^ 3\<close> bytes is rejected at once
  with the size error: the only change is the error message, so \<^verbatim>\<open>uploadVideo\<close> is
  not called and no upload is awaited.
\<close>

theorem oversized_payload_rejected_locally:
  assumes "file s = Some f" and "15 * 1024 ^ 3 < file_size f" and "mounted s"
  shows "handleUpload t s =
           s\<lparr>error := JStr (t ''fileTooLarge''
                              ''File size exceeds the maximum allowed (15 GB).'')\<rparr>
       \<and> calls (handleUpload t s) = calls s
       \<and> pending_uploads (handleUpload t s) = pending_uploads s"
  using assms by (simp add: handleUpload_def max_upload_size_def setError_def set_state_def)

theorem oversized_payload_rejected_locally_witness:
  "15 * 1024 ^ 3 < file_size oversized_file
   \<and> error (handleUpload fallback_t (step fallback_t (ChangeFile [oversized_file]) init))
       = JStr ''File size exceeds the maximum allowed (15 GB).''
   \<and> calls (handleUpload fallback_t (step fallback_t (ChangeFile [oversized_file]) init)) = []"
proof -
  let ?s = "step fallback_t (ChangeFile [oversized_file]) init"
  have f: "file ?s = Some oversized_file" by (simp add: eval_defs)
  have big: "15 * 1024 ^ 3 < file_size oversized_file" by (simp add: eval_defs)
  have m: "mounted ?s" by (simp add: eval_defs)
  have c: "calls ?s = []" by (simp add: eval_defs)
  from oversized_payload_rejected_locally [OF f big m, of fallback_t] big c
  show ?thesis by (simp add: fallback_t_def)
qed

subsection \<open>The busy guard\<close>




text \<open>
  The flag itself can be cleared while an upload is awaited. The interval fires every
  two seconds whether or not the previous status query has settled; when two queries
  are awaited and the first reply is terminal, the flag is cleared and a new upload can
  start, and the second reply then clears the flag again under that upload, so that a
  further submission starts another one.
\<close>

lemma late_status_reply_clears_flag_under_upload:
  "pending_uploads
     (run fallback_t
        [TimerFires 1, TimerFires 1,
         StatusSettled 1 (Resolved (JObj [(''status'', JStr ''completed'')])),
         Submit,
         StatusSettled 1 (Resolved (JObj [(''status'', JStr ''completed'')])),
         Submit] polling_state) = 2"
  by (simp add: eval_defs)

subsection \<open>Upload failures\<close>

text \<open>
  Claim C8. When the upload fails with a response of status 507, the error shown is the
  storage message, whatever else the thrown error and its response body hold; the flag
  is cleared.
\<close>

theorem storage_exhaustion_message_on_507:
  assumes "get_prop err ''response'' = response"
    and "get_prop response ''status'' = JNum 507"
    and "mounted s"
  shows "error (handleUpload_resume t (Rejected err) s)
           = JStr (t ''noSpaceLeft''
               ''Server disk space is full. Please try again later or contact administrator.'')
       \<and> \<not> uploadInProgress (handleUpload_resume t (Rejected err) s)"
proof -
  from assms have "\<not> nullish response"
    by (intro get_prop_defined_not_nullish [of _ "''status''"]) simp
  moreover from this assms have "\<not> nullish err"
    by (intro get_prop_defined_not_nullish [of _ "''response''"]) auto
  ultimately show ?thesis
    using assms
    by (simp add: handleUpload_resume_def handleUpload_catch_def opt_chain_def setters Let_def)
qed

theorem storage_exhaustion_message_on_507_witness:
  "error (handleUpload_resume fallback_t
            (Rejected (JObj [(''response'',
                              JObj [(''status'', JNum 507),
                                    (''data'', JObj [(''detail'', JStr ''quota exceeded'')])]),
                             (''message'', JStr ''Request failed with status code 507'')]))
            uploading_state)
     = JStr ''Server disk space is full. Please try again later or contact administrator.''"
proof -
  let ?response = "JObj [(''status'', JNum 507),
                         (''data'', JObj [(''detail'', JStr ''quota exceeded'')])]"
  let ?err = "JObj [(''response'', ?response),
                    (''message'', JStr ''Request failed with status code 507'')]"
  have r: "get_prop ?err ''response'' = ?response" by simp
  have st: "get_prop ?response ''status'' = JNum 507" by simp
  have m: "mounted uploading_state" by (simp add: eval_defs)
  from storage_exhaustion_message_on_507 [OF r st m, of fallback_t]
  show ?thesis by (simp add: fallback_t_def)
qed

subsection \<open>Replies to the status query\<close>

text \<open>
  What the handling of one reply with status \<^verbatim>\<open>completed\<close> does: the timer that
  issued the query is cancelled, it does not fire again and issues no status query in the
  rest of the run (its id is one that was handed out); the flag is clear afterwards,
  whatever it was; and the error message is left as it was.
\<close>

lemma completed_reply_cancels_timer_and_clears_flag:
  assumes "get_prop statusRes ''status'' = JStr ''completed''"
  shows "\<not> running i (poll_resume t i (Resolved statusRes) s)
       \<and> \<not> uploadInProgress (poll_resume t i (Resolved statusRes) s)
       \<and> error (poll_resume t i (Resolved statusRes) s) = error s
       \<and> poll_callback i (poll_resume t i (Resolved statusRes) s)
           = poll_resume t i (Resolved statusRes) s
       \<and> (i < next_timer s \<longrightarrow>
            filter (issued_by i) (calls (run t es (poll_resume t i (Resolved statusRes) s)))
              = filter (issued_by i) (calls s))"
proof -
  from assms have "\<not> nullish statusRes"
    by (intro get_prop_defined_not_nullish [of _ "''status''"]) simp
  with assms have now:
    "\<not> running i (poll_resume t i (Resolved statusRes) s)
     \<and> \<not> uploadInProgress (poll_resume t i (Resolved statusRes) s)
     \<and> error (poll_resume t i (Resolved statusRes) s) = error s
     \<and> poll_callback i (poll_resume t i (Resolved statusRes) s)
         = poll_resume t i (Resolved statusRes) s"
    by (simp add: running_def poll_resume_def poll_callback_def clearInterval_def setters
        Let_def map_of_cleared)
  then have "filter (issued_by i) (calls (run t es (poll_resume t i (Resolved statusRes) s)))
               = filter (issued_by i) (calls s)"
    if "i < next_timer s"
    using that
      cancelled_timer_issues_nothing [of i "poll_resume t i (Resolved statusRes) s" t es]
    by (simp add: next_timer_poll_resume calls_poll_resume)
  with now show ?thesis by blast
qed

text \<open>
  Claim C5. That the flag goes from set to cleared exactly once does not hold of the
  code. The interval fires every two seconds whether or not the status query of the
  previous firing has settled, and cancelling the timer does not withdraw a query that is
  awaited. Below, timer 1 fires twice before the first reply. The first \<^verbatim>\<open>completed\<close>
  reply cancels the timer and clears the flag; the user submits again, which sets the
  flag and starts an upload; the second \<^verbatim>\<open>completed\<close> reply, of the task that was
  already reported complete, clears the flag once more, while that upload is awaited.
\<close>

theorem completed_replies_clear_flag_twice:
  "uploadInProgress (run fallback_t [TimerFires 1, TimerFires 1] polling_state)
   \<and> \<not> uploadInProgress
        (run fallback_t
           [TimerFires 1, TimerFires 1,
            StatusSettled 1 (Resolved (JObj [(''status'', JStr ''completed''),
                                             (''progress'', JNum 100)]))]
           polling_state)
   \<and> uploadInProgress
        (run fallback_t
           [TimerFires 1, TimerFires 1,
            StatusSettled 1 (Resolved (JObj [(''status'', JStr ''completed''),
                                             (''progress'', JNum 100)])),
            Submit]
           polling_state)
   \<and> \<not> uploadInProgress
        (run fallback_t
           [TimerFires 1, TimerFires 1,
            StatusSettled 1 (Resolved (JObj [(''status'', JStr ''completed''),
                                             (''progress'', JNum 100)])),
            Submit,
            StatusSettled 1 (Resolved (JObj [(''status'', JStr ''completed''),
                                             (''progress'', JNum 100)]))]
           polling_state)
   \<and> pending_uploads
        (run fallback_t
           [TimerFires 1, TimerFires 1,
            StatusSettled 1 (Resolved (JObj [(''status'', JStr ''completed''),
                                             (''progress'', JNum 100)])),
            Submit,
            StatusSettled 1 (Resolved (JObj [(''status'', JStr ''completed''),
                                             (''progress'', JNum 100)]))]
           polling_state) = 1"
  by (simp add: eval_defs)



text \<open>
  Claim C7. When the status query throws, the timer that issued it is cancelled: it does
  not fire again and issues no status query in the rest of the run. The flag is cleared,
  no call is made in reply, and the error shown is the detail of the response body, else
  the message of the thrown error, else the translated fallback; it is not empty when the
  fallback is not. The thrown value is an error object, that is, neither null nor
  undefined.
\<close>

theorem failed_query_stops_polling:
  assumes "\<not> nullish err" and "mounted s"
    and "t ''statusCheckFailed'' ''Failed to check upload status.'' \<noteq> []"
  shows "\<not> running i (poll_resume t i (Rejected err) s)
       \<and> \<not> uploadInProgress (poll_resume t i (Rejected err) s)
       \<and> error (poll_resume t i (Rejected err) s)
           = error_text err (t ''statusCheckFailed'' ''Failed to check upload status.'')
       \<and> truthy (error (poll_resume t i (Rejected err) s))
       \<and> calls (poll_resume t i (Rejected err) s) = calls s
       \<and> poll_callback i (poll_resume t i (Rejected err) s)
           = poll_resume t i (Rejected err) s
       \<and> (i < next_timer s \<longrightarrow>
            filter (issued_by i) (calls (run t es (poll_resume t i (Rejected err) s)))
              = filter (issued_by i) (calls s))"
proof -
  from assms have now:
    "\<not> running i (poll_resume t i (Rejected err) s)
     \<and> \<not> uploadInProgress (poll_resume t i (Rejected err) s)
     \<and> error (poll_resume t i (Rejected err) s)
         = error_text err (t ''statusCheckFailed'' ''Failed to check upload status.'')
     \<and> truthy (error (poll_resume t i (Rejected err) s))
     \<and> calls (poll_resume t i (Rejected err) s) = calls s
     \<and> poll_callback i (poll_resume t i (Rejected err) s)
         = poll_resume t i (Rejected err) s"
    by (simp add: running_def poll_resume_def poll_catch_def poll_callback_def
        clearInterval_def setters Let_def map_of_cleared error_text_def js_or_def)
  then have "filter (issued_by i) (calls (run t es (poll_resume t i (Rejected err) s)))
               = filter (issued_by i) (calls s)"
    if "i < next_timer s"
    using that cancelled_timer_issues_nothing [of i "poll_resume t i (Rejected err) s" t es]
    by (simp add: next_timer_poll_resume)
  with now show ?thesis by blast
qed

theorem failed_query_stops_polling_witness:
  "\<not> running 1 (poll_resume fallback_t 1
        (Rejected (JObj [(''message'', JStr ''Network Error'')])) querying_state)
   \<and> \<not> uploadInProgress (poll_resume fallback_t 1
        (Rejected (JObj [(''message'', JStr ''Network Error'')])) querying_state)
   \<and> error (poll_resume fallback_t 1
        (Rejected (JObj [(''message'', JStr ''Network Error'')])) querying_state)
       = JStr ''Network Error''
   \<and> calls (poll_resume fallback_t 1
        (Rejected (JObj [(''message'', JStr ''Network Error'')])) querying_state)
       = calls querying_state"
proof -
  let ?err = "JObj [(''message'', JStr ''Network Error'')]"
  have n: "\<not> nullish ?err" by simp
  have m: "mounted querying_state" by (simp add: eval_defs)
  have fb: "fallback_t ''statusCheckFailed'' ''Failed to check upload status.'' \<noteq> []"
    by (simp add: fallback_t_def)
  from failed_query_stops_polling [of ?err querying_state fallback_t 1 "[]"] n m fb
  show ?thesis by (simp add: error_text_def js_or_def opt_chain_def)
qed

text \<open>
  Claim C9. A reply whose status is neither \<^verbatim>\<open>completed\<close> nor \<^verbatim>\<open>failed\<close>, be it
  another string, another value or absent, changes the progress and the operation label
  and nothing else: the timers, the flag and the error message stay as they are.
\<close>

theorem other_status_keeps_polling:
  assumes "\<not> nullish statusRes"
    and "get_prop statusRes ''status'' \<noteq> JStr ''completed''"
    and "get_prop statusRes ''status'' \<noteq> JStr ''failed''"
    and "mounted s"
  shows "poll_resume t i (Resolved statusRes) s =
           s\<lparr>progress := js_or (get_prop statusRes ''progress'') (JNum 0),
             statusText := js_or (get_prop statusRes ''current_operation'') (JStr [])\<rparr>
       \<and> timers (poll_resume t i (Resolved statusRes) s) = timers s
       \<and> uploadInProgress (poll_resume t i (Resolved statusRes) s) = uploadInProgress s
       \<and> error (poll_resume t i (Resolved statusRes) s) = error s"
  using assms
  by (simp add: poll_resume_def setters Let_def)

theorem other_status_keeps_polling_witness:
  "progress (poll_resume fallback_t 1
        (Resolved (JObj [(''status'', JStr ''queued''), (''progress'', JNum 40),
                         (''current_operation'', JStr ''Extracting audio'')]))
        querying_state) = JNum 40
   \<and> statusText (poll_resume fallback_t 1
        (Resolved (JObj [(''status'', JStr ''queued''), (''progress'', JNum 40),
                         (''current_operation'', JStr ''Extracting audio'')]))
        querying_state) = JStr ''Extracting audio''
   \<and> running 1 (poll_resume fallback_t 1
        (Resolved (JObj [(''status'', JStr ''queued''), (''progress'', JNum 40),
                         (''current_operation'', JStr ''Extracting audio'')]))
        querying_state)
   \<and> uploadInProgress (poll_resume fallback_t 1
        (Resolved (JObj [(''status'', JStr ''queued''), (''progress'', JNum 40),
                         (''current_operation'', JStr ''Extracting audio'')]))
        querying_state)
   \<and> error (poll_resume fallback_t 1
        (Resolved (JObj [(''status'', JStr ''queued''), (''progress'', JNum 40),
                         (''current_operation'', JStr ''Extracting audio'')]))
        querying_state) = JStr []"
proof -
  let ?r = "JObj [(''status'', JStr ''queued''), (''progress'', JNum 40),
                  (''current_operation'', JStr ''Extracting audio'')]"
  have n: "\<not> nullish ?r" by simp
  have st: "get_prop ?r ''status'' \<noteq> JStr ''completed''"
    "get_prop ?r ''status'' \<noteq> JStr ''failed''"
    by simp_all
  have before: "mounted querying_state" "running 1 querying_state"
    "uploadInProgress querying_state" "error querying_state = JStr []"
    by (simp_all add: eval_defs)
  from other_status_keeps_polling [of ?r querying_state fallback_t 1] n st before
  show ?thesis by (simp add: running_def js_or_def)
qed

text \<open>
  Claim C10. A reply that is an object but has no \<^verbatim>\<open>progress\<close> or no
  \<^verbatim>\<open>current_operation\<close> is handled as a reply, not as a failure: the progress shown is
  then 0 and the label the empty string; no error is set unless the status is
  \<^verbatim>\<open>failed\<close>; and unless the status is one of the two final ones the timers and the
  flag stay as they are, so polling goes on.
\<close>

theorem missing_fields_take_defaults:
  assumes "\<not> nullish statusRes" and "mounted s"
  shows "(get_prop statusRes ''progress'' = JUndefined \<longrightarrow>
            progress (poll_resume t i (Resolved statusRes) s) = JNum 0)
       \<and> (get_prop statusRes ''current_operation'' = JUndefined \<longrightarrow>
            statusText (poll_resume t i (Resolved statusRes) s) = JStr [])
       \<and> (get_prop statusRes ''status'' \<noteq> JStr ''failed'' \<longrightarrow>
            error (poll_resume t i (Resolved statusRes) s) = error s)
       \<and> (get_prop statusRes ''status'' \<noteq> JStr ''completed'' \<longrightarrow>
          get_prop statusRes ''status'' \<noteq> JStr ''failed'' \<longrightarrow>
            timers (poll_resume t i (Resolved statusRes) s) = timers s
          \<and> uploadInProgress (poll_resume t i (Resolved statusRes) s) = uploadInProgress s)"
  using assms
  by (simp add: poll_resume_def poll_catch_def setters Let_def js_or_def clearInterval_def
      split: option.split)

theorem missing_fields_take_defaults_witness:
  "progress (poll_resume fallback_t 1 (Resolved (JObj [(''status'', JStr ''processing'')]))
        querying_state) = JNum 0
   \<and> statusText (poll_resume fallback_t 1 (Resolved (JObj [(''status'', JStr ''processing'')]))
        querying_state) = JStr []
   \<and> running 1 (poll_resume fallback_t 1 (Resolved (JObj [(''status'', JStr ''processing'')]))
        querying_state)
   \<and> uploadInProgress (poll_resume fallback_t 1
        (Resolved (JObj [(''status'', JStr ''processing'')])) querying_state)
   \<and> error (poll_resume fallback_t 1 (Resolved (JObj [(''status'', JStr ''processing'')]))
        querying_state) = JStr []"
proof -
  let ?r = "JObj [(''status'', JStr ''processing'')]"
  have n: "\<not> nullish ?r" by simp
  have absent: "get_prop ?r ''progress'' = JUndefined"
    "get_prop ?r ''current_operation'' = JUndefined"
    "get_prop ?r ''status'' \<noteq> JStr ''completed''"
    "get_prop ?r ''status'' \<noteq> JStr ''failed''"
    by simp_all
  have before: "mounted querying_state" "running 1 querying_state"
    "uploadInProgress querying_state" "error querying_state = JStr []"
    by (simp_all add: eval_defs)
  from missing_fields_take_defaults [of ?r querying_state fallback_t 1] n absent before
  show ?thesis by (simp add: running_def)
qed

subsection \<open>Cancelling the poll timer\<close>

text \<open>
  Claim C4. In every run, when timer \<open>i\<close> is polling and the component is unmounted,
  the timer is cancelled and no status query at all is issued afterwards; and when
  \<^verbatim>\<open>taskId\<close> is set to another value, the timer is cancelled and issues no status
  query afterwards, whatever happens next.
\<close>

theorem poll_timer_cancelled_on_teardown_or_task_change:
  assumes "reachable t s" and "(i, T) \<in> set (timers s)"
  shows "\<not> running i (step t Unmount s)
       \<and> filter is_status_query (calls (run t es (step t Unmount s)))
           = filter is_status_query (calls s)
       \<and> (\<not> same_value (taskId s) v \<longrightarrow>
            \<not> running i (setTaskId v s)
          \<and> filter (issued_by i) (calls (run t es (setTaskId v s)))
              = filter (issued_by i) (calls s))"
proof -
  from assms(1) have wf: "timers_wf s" by (rule reachable_wf)
  with assms(2) have m: "mounted s" and lt: "i < next_timer s"
    by (auto simp: timers_wf_def)
  have none: "timers (effect_cleanup s) = []" using wf by (rule timers_cleanup)
  have u: "step t Unmount s = unmount s" using m by simp
  have d: "dead (unmount s)"
    using none by (simp add: dead_def unmount_def)
  have cu: "calls (unmount s) = calls s"
    by (simp add: unmount_def cleanup_keeps)
  have part1: "\<not> running i (step t Unmount s)"
    using d u by (simp add: dead_def running_def)
  have part2: "filter is_status_query (calls (run t es (step t Unmount s)))
                 = filter is_status_query (calls s)"
    using queries_dead_run [OF d, of t es] u cu by simp
  have part3: "\<not> running i (setTaskId v s)
             \<and> filter (issued_by i) (calls (run t es (setTaskId v s)))
                 = filter (issued_by i) (calls s)"
    if changed: "\<not> same_value (taskId s) v"
  proof -
    have "timers_wf (s\<lparr>taskId := v\<rparr>)" using wf by simp
    then have "timers (effect_cleanup (s\<lparr>taskId := v\<rparr>)) = []" by (rule timers_cleanup)
    moreover have "next_timer (effect_cleanup (s\<lparr>taskId := v\<rparr>)) = next_timer s"
      by (simp add: cleanup_keeps)
    ultimately have st: "stale i (setTaskId v s)"
      using m changed lt
      by (auto simp: stale_def running_def setTaskId_def effect_body_def)
    from queries_stale_run [OF st, of t es] st show ?thesis
      by (simp add: stale_def calls_setTaskId)
  qed
  from part1 part2 part3 show ?thesis by blast
qed

theorem poll_timer_cancelled_on_teardown_or_task_change_witness:
  "running 1 polling_state
   \<and> \<not> running 1 (step fallback_t Unmount polling_state)
   \<and> filter is_status_query
        (calls (run fallback_t
                  [TimerFires 1, Submit, TimerFires 2]
                  (step fallback_t Unmount polling_state))) = []
   \<and> \<not> running 1 (setTaskId (JStr ''xyz789'') polling_state)
   \<and> running 2 (setTaskId (JStr ''xyz789'') polling_state)
   \<and> filter (issued_by 1)
        (calls (run fallback_t [TimerFires 1, TimerFires 2, TimerFires 1]
                  (setTaskId (JStr ''xyz789'') polling_state))) = []"
proof -
  have r: "reachable fallback_t polling_state"
    unfolding polling_state_def by (rule reachable_run)
  have tm: "(1, JStr ''abc123'') \<in> set (timers polling_state)"
    by (simp add: eval_defs)
  have ch: "\<not> same_value (taskId polling_state) (JStr ''xyz789'')"
    by (simp add: eval_defs)
  have before: "running 1 polling_state" "filter is_status_query (calls polling_state) = []"
    "filter (issued_by 1) (calls polling_state) = []"
    by (simp_all add: eval_defs)
  have new: "running 2 (setTaskId (JStr ''xyz789'') polling_state)"
    by (simp add: eval_defs)
  from poll_timer_cancelled_on_teardown_or_task_change [OF r tm,
      of "[TimerFires 1, Submit, TimerFires 2]" "JStr ''xyz789''"]
    poll_timer_cancelled_on_teardown_or_task_change [OF r tm,
      of "[TimerFires 1, TimerFires 2, TimerFires 1]" "JStr ''xyz789''"]
    ch before new
  show ?thesis by simp
qed

end
